theory Spec2Isabelle
  imports Complex_Main
begin

section \<open>Decoded JSON values and Python dictionaries\<close>

text \<open>
  The SDK works on what \<^verbatim>\<open>response.json()\<close> returns: \<^verbatim>\<open>None\<close>, booleans, integers,
  floats, strings, lists and dictionaries with string keys. A dictionary is an association
  list in insertion order; Python keeps its keys distinct. Floats are modelled as reals
  (no NaN, no rounding). Strings are HOL strings, and only the ASCII letters have a
  lower-case form.
\<close>

datatype json =
    JNull
  | JBool bool
  | JInt int
  | JFloat real
  | JStr string
  | JList "json list"
  | JObj "(string \<times> json) list"

type_synonym dict = "(string \<times> json) list"

text \<open>Python truth value testing, as used by \<^verbatim>\<open>if x\<close>, \<^verbatim>\<open>x or y\<close> and \<^verbatim>\<open>not x\<close>.\<close>

fun truthy :: "json \<Rightarrow> bool" where
  "truthy JNull = False"
| "truthy (JBool b) = b"
| "truthy (JInt i) = (i \<noteq> 0)"
| "truthy (JFloat r) = (r \<noteq> 0)"
| "truthy (JStr s) = (s \<noteq> [])"
| "truthy (JList xs) = (xs \<noteq> [])"
| "truthy (JObj kvs) = (kvs \<noteq> [])"

text \<open>\<^verbatim>\<open>a or b\<close>: the first operand when it is truthy, otherwise the second.\<close>

definition py_or :: "json \<Rightarrow> json \<Rightarrow> json" where
  "py_or a b = (if truthy a then a else b)"

text \<open>\<^verbatim>\<open>d.get(k)\<close> and \<^verbatim>\<open>d.get(k, default)\<close>.\<close>

definition dict_get :: "dict \<Rightarrow> string \<Rightarrow> json" where
  "dict_get d k = (case map_of d k of None \<Rightarrow> JNull | Some v \<Rightarrow> v)"

definition dict_get_default :: "dict \<Rightarrow> string \<Rightarrow> json \<Rightarrow> json" where
  "dict_get_default d k dflt = (case map_of d k of None \<Rightarrow> dflt | Some v \<Rightarrow> v)"

text \<open>
  \<^verbatim>\<open>d[k] = v\<close>: an existing key keeps its position and takes the new value, a new key
  is appended.
\<close>

fun dict_set :: "string \<Rightarrow> json \<Rightarrow> dict \<Rightarrow> dict" where
  "dict_set k v [] = [(k, v)]"
| "dict_set k v ((k', v') # kvs) =
     (if k' = k then (k', v) # kvs else (k', v') # dict_set k v kvs)"

subsection \<open>Python's \<^verbatim>\<open>str\<close>\<close>

definition digit_char :: "nat \<Rightarrow> char" where
  "digit_char d = ''0123456789'' ! d"

fun str_nat :: "nat \<Rightarrow> string" where
  "str_nat n = (if n < 10 then [digit_char n] else str_nat (n div 10) @ [digit_char (n mod 10)])"

declare str_nat.simps [simp del]

definition str_int :: "int \<Rightarrow> string" where
  "str_int i = (if i < 0 then CHR ''-'' # str_nat (nat (- i)) else str_nat (nat i))"

text \<open>
  \<^verbatim>\<open>str(v)\<close> on a decoded value. The text of a float and of a container (which is built
  from \<^verbatim>\<open>repr\<close>) is not modelled: it is the parameter \<open>other\<close>.
\<close>

fun py_str :: "(json \<Rightarrow> string) \<Rightarrow> json \<Rightarrow> string" where
  "py_str other JNull = ''None''"
| "py_str other (JBool b) = (if b then ''True'' else ''False'')"
| "py_str other (JInt i) = str_int i"
| "py_str other (JStr s) = s"
| "py_str other v = other v"

section \<open>Wire normalizer: \<^verbatim>\<open>_to_camel_case_keys\<close>\<close>

definition lower_char :: "char \<Rightarrow> char" where
  "lower_char c =
     (case map_of (zip ''ABCDEFGHIJKLMNOPQRSTUVWXYZ'' ''abcdefghijklmnopqrstuvwxyz'') c of
        Some d \<Rightarrow> d
      | None \<Rightarrow> c)"

text \<open>\<^verbatim>\<open>key[0].lower() + key[1:] if key else key\<close>\<close>

fun camel_key :: "string \<Rightarrow> string" where
  "camel_key [] = []"
| "camel_key (c # cs) = lower_char c # cs"

text \<open>
  The convenience alias: \<^verbatim>\<open>if 'documentId' in result and 'id' not in result:
  result['id'] = str(result['documentId'])\<close>.
\<close>

definition add_alias :: "(json \<Rightarrow> string) \<Rightarrow> dict \<Rightarrow> dict" where
  "add_alias other result =
     (case map_of result ''documentId'' of
        None \<Rightarrow> result
      | Some d \<Rightarrow>
          (case map_of result ''id'' of
             None \<Rightarrow> dict_set ''id'' (JStr (py_str other d)) result
           | Some i \<Rightarrow> result))"

text \<open>
  \<open>to_camel_case_keys\<close> is the function; \<open>camel_items\<close> is its loop over
  \<^verbatim>\<open>obj.items()\<close>, with \<^verbatim>\<open>result\<close> as the accumulator.
\<close>

fun to_camel_case_keys :: "(json \<Rightarrow> string) \<Rightarrow> json \<Rightarrow> json"
  and camel_items :: "(json \<Rightarrow> string) \<Rightarrow> dict \<Rightarrow> dict \<Rightarrow> dict" where
  "to_camel_case_keys other JNull = JNull"
| "to_camel_case_keys other (JList xs) = JList (map (to_camel_case_keys other) xs)"
| "to_camel_case_keys other (JObj kvs) = JObj (add_alias other (camel_items other [] kvs))"
| "to_camel_case_keys other v = v"
| "camel_items other result [] = result"
| "camel_items other result ((k, v) # kvs) =
     camel_items other (dict_set (camel_key k) (to_camel_case_keys other v) result) kvs"

section \<open>Response envelope: \<^verbatim>\<open>ApiResponse\<close>\<close>

text \<open>
  The dataclass does not check its field types, and \<^verbatim>\<open>from_dict\<close> stores whatever the
  payload holds, so every field is a decoded value (\<open>JNull\<close> is \<^verbatim>\<open>None\<close>).
\<close>

record ApiResponse =
  guid :: json
  success :: json
  timestamp_utc :: json
  status_code :: json
  error_message :: json
  data :: json
  total_count :: json
  processing_time_ms :: json
  raw_response :: dict

definition from_dict :: "(json \<Rightarrow> string) \<Rightarrow> dict \<Rightarrow> ApiResponse" where
  "from_dict other d =
     (let raw_data = py_or (dict_get d ''Data'') (dict_get d ''data'');
          converted_data = (if truthy raw_data then to_camel_case_keys other raw_data else JNull)
      in \<lparr> guid = py_or (dict_get d ''Guid'') (dict_get d ''guid''),
           success = py_or (dict_get d ''Success'') (dict_get_default d ''success'' (JBool False)),
           timestamp_utc = py_or (dict_get d ''TimestampUtc'') (dict_get d ''timestampUtc''),
           status_code = py_or (dict_get d ''StatusCode'') (dict_get_default d ''statusCode'' (JInt 0)),
           error_message = py_or (dict_get d ''ErrorMessage'') (dict_get d ''errorMessage''),
           data = converted_data,
           total_count = py_or (dict_get d ''TotalCount'') (dict_get d ''totalCount''),
           processing_time_ms = py_or (dict_get d ''ProcessingTimeMs'') (dict_get d ''processingTimeMs''),
           raw_response = d \<rparr>)"

section \<open>Errors and the transport\<close>

text \<open>
  \<open>VerbexError message status_code response\<close> is the SDK's exception. \<open>TypeError\<close> and
  \<open>AttributeError\<close> are the Python exceptions that leave \<^verbatim>\<open>_make_request\<close> when a
  payload is not a mapping or a status code cannot be compared with a number.
\<close>

datatype error =
    VerbexError json json "ApiResponse option"
  | TypeError
  | AttributeError

text \<open>
  The transport is \<^verbatim>\<open>requests\<close>: a call of the session either raises an exception of the
  \<^verbatim>\<open>requests.RequestException\<close> family, kept with its \<^verbatim>\<open>str(e)\<close>, or returns a
  response. \<open>resp_json\<close> is \<^verbatim>\<open>response.json()\<close>, \<open>None\<close> when it raises
  \<^verbatim>\<open>json.JSONDecodeError\<close>.
\<close>

datatype transport_error = RequestException string

record http_request =
  req_method :: string
  req_url :: string
  req_headers :: "(string \<times> string) list"
  req_json :: "json option"

record http_response =
  resp_json :: "json option"
  resp_ok :: bool
  resp_status_code :: int
  resp_text :: string

type_synonym transport = "http_request \<Rightarrow> transport_error + http_response"

text \<open>
  \<^verbatim>\<open>a >= n\<close> for an integer literal \<open>n\<close>: defined on numbers (a boolean is the integer 0
  or 1), a \<^verbatim>\<open>TypeError\<close> (\<open>None\<close>) on everything else.
\<close>

fun num_ge :: "json \<Rightarrow> int \<Rightarrow> bool option" where
  "num_ge (JInt i) n = Some (n \<le> i)"
| "num_ge (JFloat r) n = Some (of_int n \<le> r)"
| "num_ge (JBool b) n = Some (n \<le> (if b then 1 else 0))"
| "num_ge v n = None"

section \<open>The client\<close>

record VerbexClient =
  endpoint :: string
  access_key :: string

text \<open>\<^verbatim>\<open>endpoint.rstrip('/')\<close>\<close>

definition rstrip_slash :: "string \<Rightarrow> string" where
  "rstrip_slash s = rev (dropWhile (\<lambda>c. c = CHR ''/'') (rev s))"

definition VerbexClient_init :: "string \<Rightarrow> string \<Rightarrow> VerbexClient" where
  "VerbexClient_init ep key = \<lparr> endpoint = rstrip_slash ep, access_key = key \<rparr>"

definition get_auth_headers :: "VerbexClient \<Rightarrow> (string \<times> string) list" where
  "get_auth_headers c = [(''Authorization'', ''Bearer '' @ access_key c)]"

text \<open>The payload synthesized when the body is not JSON.\<close>

definition fallback_payload :: "http_response \<Rightarrow> json" where
  "fallback_payload response =
     JObj [(''success'', JBool (resp_ok response)),
           (''statusCode'', JInt (resp_status_code response)),
           (''data'', if resp_text response \<noteq> [] then JStr (resp_text response) else JNull)]"

text \<open>
  The part of \<^verbatim>\<open>_make_request\<close> after the payload is decoded: build the envelope, raise
  on \<^verbatim>\<open>not api_response.success and api_response.status_code >= 400\<close> (the comparison is
  evaluated only when the success flag is falsy), return the envelope otherwise.
\<close>

definition check_response :: "(json \<Rightarrow> string) \<Rightarrow> json \<Rightarrow> error + ApiResponse" where
  "check_response other response_data =
     (case response_data of
        JObj d \<Rightarrow>
          (let api_response = from_dict other d in
           if truthy (success api_response) then Inr api_response
           else (case num_ge (status_code api_response) 400 of
                   None \<Rightarrow> Inl TypeError
                 | Some True \<Rightarrow>
                     Inl (VerbexError
                            (py_or (error_message api_response)
                               (JStr (''Request failed with status '' @
                                      py_str other (status_code api_response))))
                            (status_code api_response)
                            (Some api_response))
                 | Some False \<Rightarrow> Inr api_response))
      | _ \<Rightarrow> Inl AttributeError)"

text \<open>
  \<^verbatim>\<open>response_data\<close>: the decoded body, or the fallback payload on
  \<^verbatim>\<open>json.JSONDecodeError\<close>.
\<close>

definition response_data_of :: "http_response \<Rightarrow> json" where
  "response_data_of response =
     (case resp_json response of
        Some response_data \<Rightarrow> response_data
      | None \<Rightarrow> fallback_payload response)"

text \<open>
  What \<^verbatim>\<open>_make_request\<close> does with the outcome of the session call: the
  \<^verbatim>\<open>except requests.RequestException\<close> handler, or decoding and the check above.
\<close>

definition after_send :: "(json \<Rightarrow> string) \<Rightarrow> transport_error + http_response \<Rightarrow> error + ApiResponse" where
  "after_send other outcome =
     (case outcome of
        Inl (RequestException msg) \<Rightarrow>
          Inl (VerbexError (JStr (''Request failed: '' @ msg)) (JInt 0) None)
      | Inr response \<Rightarrow> check_response other (response_data_of response))"

definition make_request ::
    "(json \<Rightarrow> string) \<Rightarrow> transport \<Rightarrow> VerbexClient \<Rightarrow> string \<Rightarrow> string \<Rightarrow> json option \<Rightarrow> bool
     \<Rightarrow> error + ApiResponse" where
  "make_request other tr c method path body require_auth =
     (let url = endpoint c @ path;
          headers = (if require_auth then get_auth_headers c else [])
      in if method = ''GET'' then
           after_send other (tr \<lparr> req_method = ''GET'', req_url = url, req_headers = headers,
                                  req_json = None \<rparr>)
         else if method = ''POST'' then
           after_send other (tr \<lparr> req_method = ''POST'', req_url = url, req_headers = headers,
                                  req_json = body \<rparr>)
         else if method = ''PUT'' then
           after_send other (tr \<lparr> req_method = ''PUT'', req_url = url, req_headers = headers,
                                  req_json = body \<rparr>)
         else if method = ''DELETE'' then
           after_send other (tr \<lparr> req_method = ''DELETE'', req_url = url, req_headers = headers,
                                  req_json = None \<rparr>)
         else Inl (VerbexError (JStr (''Unsupported HTTP method: '' @ method)) (JInt 0) None))"

subsection \<open>Optional arguments\<close>

text \<open>
  An argument typed \<^verbatim>\<open>Optional[str]\<close>, \<^verbatim>\<open>Optional[List[str]]\<close> or
  \<^verbatim>\<open>Optional[Dict[str, str]]\<close> as the Python value it is: \<^verbatim>\<open>None\<close> when absent.
\<close>

definition opt_str :: "string option \<Rightarrow> json" where
  "opt_str a = (case a of None \<Rightarrow> JNull | Some s \<Rightarrow> JStr s)"

definition opt_labels :: "string list option \<Rightarrow> json" where
  "opt_labels a = (case a of None \<Rightarrow> JNull | Some ls \<Rightarrow> JList (map JStr ls))"

definition opt_tags :: "(string \<times> string) list option \<Rightarrow> json" where
  "opt_tags a = (case a of None \<Rightarrow> JNull | Some ts \<Rightarrow> JObj (map (\<lambda>(k, v). (k, JStr v)) ts))"

definition opt_dict :: "dict option \<Rightarrow> json" where
  "opt_dict a = (case a of None \<Rightarrow> JNull | Some ts \<Rightarrow> JObj ts)"

text \<open>\<^verbatim>\<open>if value: data[key] = value\<close>\<close>

definition set_if_truthy :: "string \<Rightarrow> json \<Rightarrow> dict \<Rightarrow> dict" where
  "set_if_truthy k v d = (if truthy v then dict_set k v d else d)"

text \<open>
  \<^verbatim>\<open>len(x)\<close>; the source calls it on a list or dictionary argument only, after the
  truth test.
\<close>

fun py_len :: "json \<Rightarrow> nat" where
  "py_len (JList xs) = length xs"
| "py_len (JObj kvs) = length kvs"
| "py_len (JStr s) = length s"
| "py_len v = 0"

subsection \<open>Request bodies\<close>

definition create_index_data ::
    "string \<Rightarrow> string option \<Rightarrow> string option \<Rightarrow> string option \<Rightarrow> bool \<Rightarrow> string \<Rightarrow> bool \<Rightarrow> bool
     \<Rightarrow> int \<Rightarrow> int \<Rightarrow> string list option \<Rightarrow> (string \<times> string) list option \<Rightarrow> dict" where
  "create_index_data ident name description repository_filename in_memory storage_mode
       enable_lemmatizer enable_stop_word_remover min_token_length max_token_length labels tags =
     set_if_truthy ''Tags'' (opt_tags tags)
       (set_if_truthy ''Labels'' (opt_labels labels)
          [(''Id'', JStr ident),
           (''Name'', py_or (opt_str name) (JStr ident)),
           (''Description'', py_or (opt_str description) (JStr [])),
           (''RepositoryFilename'', py_or (opt_str repository_filename) (JStr (ident @ ''.db''))),
           (''InMemory'', JBool in_memory),
           (''StorageMode'', JStr storage_mode),
           (''EnableLemmatizer'', JBool enable_lemmatizer),
           (''EnableStopWordRemover'', JBool enable_stop_word_remover),
           (''MinTokenLength'', JInt min_token_length),
           (''MaxTokenLength'', JInt max_token_length)])"

definition add_document_data ::
    "string \<Rightarrow> string option \<Rightarrow> string list option \<Rightarrow> (string \<times> string) list option \<Rightarrow> dict" where
  "add_document_data content document_id labels tags =
     set_if_truthy ''Tags'' (opt_tags tags)
       (set_if_truthy ''Labels'' (opt_labels labels)
          (set_if_truthy ''Id'' (opt_str document_id)
             [(''Content'', JStr content)]))"

definition search_data :: "string \<Rightarrow> int \<Rightarrow> string list option \<Rightarrow> dict option \<Rightarrow> dict" where
  "search_data query max_results labels tags =
     (let d0 = [(''Query'', JStr query), (''MaxResults'', JInt max_results)];
          d1 = (if truthy (opt_labels labels) \<and> py_len (opt_labels labels) > 0
                then dict_set ''Labels'' (opt_labels labels) d0 else d0)
      in if truthy (opt_dict tags) \<and> py_len (opt_dict tags) > 0
         then dict_set ''Tags'' (opt_dict tags) d1 else d1)"

subsection \<open>Operations\<close>

text \<open>
  One constructor per method of \<^verbatim>\<open>VerbexClient\<close> that returns the envelope of a single
  request, with the method's arguments in the source's order.
\<close>

datatype client_call =
    Health_check
  | Root_health_check
  | Login string string
  | Validate_token
  | List_indices
  | Create_index string "string option" "string option" "string option" bool string bool bool
      int int "string list option" "(string \<times> string) list option"
  | Get_index string
  | Delete_index string
  | Update_index_labels string "string list option"
  | Update_index_tags string "(string \<times> string) list option"
  | List_documents string
  | Add_document string string "string option" "string list option"
      "(string \<times> string) list option"
  | Get_document string string
  | Delete_document string string
  | Update_document_labels string string "string list option"
  | Update_document_tags string string "(string \<times> string) list option"
  | Search string string int "string list option" "dict option"

text \<open>
  The arguments each method passes to \<^verbatim>\<open>_make_request\<close>: HTTP method, path, body and
  \<^verbatim>\<open>require_auth\<close>.
\<close>

fun request_args :: "client_call \<Rightarrow> string \<times> string \<times> json option \<times> bool" where
  "request_args Health_check = (''GET'', ''/v1.0/health'', None, False)"
| "request_args Root_health_check = (''GET'', ''/'', None, False)"
| "request_args (Login username password) =
     (''POST'', ''/v1.0/auth/login'',
      Some (JObj [(''Username'', JStr username), (''Password'', JStr password)]), False)"
| "request_args Validate_token = (''GET'', ''/v1.0/auth/validate'', None, True)"
| "request_args List_indices = (''GET'', ''/v1.0/indices'', None, True)"
| "request_args (Create_index ident name description repository_filename in_memory storage_mode
       enable_lemmatizer enable_stop_word_remover min_token_length max_token_length labels tags) =
     (''POST'', ''/v1.0/indices'',
      Some (JObj (create_index_data ident name description repository_filename in_memory
                    storage_mode enable_lemmatizer enable_stop_word_remover min_token_length
                    max_token_length labels tags)), True)"
| "request_args (Get_index index_id) = (''GET'', ''/v1.0/indices/'' @ index_id, None, True)"
| "request_args (Delete_index index_id) = (''DELETE'', ''/v1.0/indices/'' @ index_id, None, True)"
| "request_args (Update_index_labels index_id labels) =
     (''PUT'', ''/v1.0/indices/'' @ index_id @ ''/labels'',
      Some (JObj [(''Labels'', py_or (opt_labels labels) (JList []))]), True)"
| "request_args (Update_index_tags index_id tags) =
     (''PUT'', ''/v1.0/indices/'' @ index_id @ ''/tags'',
      Some (JObj [(''Tags'', py_or (opt_tags tags) (JObj []))]), True)"
| "request_args (List_documents index_id) =
     (''GET'', ''/v1.0/indices/'' @ index_id @ ''/documents'', None, True)"
| "request_args (Add_document index_id content document_id labels tags) =
     (''POST'', ''/v1.0/indices/'' @ index_id @ ''/documents'',
      Some (JObj (add_document_data content document_id labels tags)), True)"
| "request_args (Get_document index_id document_id) =
     (''GET'', ''/v1.0/indices/'' @ index_id @ ''/documents/'' @ document_id, None, True)"
| "request_args (Delete_document index_id document_id) =
     (''DELETE'', ''/v1.0/indices/'' @ index_id @ ''/documents/'' @ document_id, None, True)"
| "request_args (Update_document_labels index_id document_id labels) =
     (''PUT'', ''/v1.0/indices/'' @ index_id @ ''/documents/'' @ document_id @ ''/labels'',
      Some (JObj [(''Labels'', py_or (opt_labels labels) (JList []))]), True)"
| "request_args (Update_document_tags index_id document_id tags) =
     (''PUT'', ''/v1.0/indices/'' @ index_id @ ''/documents/'' @ document_id @ ''/tags'',
      Some (JObj [(''Tags'', py_or (opt_tags tags) (JObj []))]), True)"
| "request_args (Search index_id query max_results labels tags) =
     (''POST'', ''/v1.0/indices/'' @ index_id @ ''/search'',
      Some (JObj (search_data query max_results labels tags)), True)"

definition perform ::
    "(json \<Rightarrow> string) \<Rightarrow> transport \<Rightarrow> VerbexClient \<Rightarrow> client_call \<Rightarrow> error + ApiResponse" where
  "perform other tr c call =
     (case request_args call of
        (method, path, body, require_auth) \<Rightarrow> make_request other tr c method path body require_auth)"

text \<open>The one request a call sends: what the session method receives.\<close>

definition request_of :: "VerbexClient \<Rightarrow> client_call \<Rightarrow> http_request" where
  "request_of c call =
     (case request_args call of
        (method, path, body, require_auth) \<Rightarrow>
          \<lparr> req_method = method,
            req_url = endpoint c @ path,
            req_headers = (if require_auth then get_auth_headers c else []),
            req_json = (if method = ''POST'' \<or> method = ''PUT'' then body else None) \<rparr>)"


section \<open>Conformance harness\<close>



record TestResult =
  test_name :: string
  test_passed :: bool
  test_message :: string

record TestHarness =
  results :: "TestResult list"
  passed :: nat
  failed :: nat










section \<open>The specification's reading of normalization and field extraction\<close>

text \<open>
  The normalizer as the specification words it: the same tree, every key rewritten in
  place, then the alias appended when the document identifier is there and \<open>id\<close> is not.
\<close>

definition spec_alias :: "(json \<Rightarrow> string) \<Rightarrow> dict \<Rightarrow> dict" where
  "spec_alias other r =
     (case map_of r ''documentId'' of
        None \<Rightarrow> r
      | Some d \<Rightarrow> (if ''id'' \<in> set (map fst r) then r else r @ [(''id'', JStr (py_str other d))]))"

fun spec_normalize :: "(json \<Rightarrow> string) \<Rightarrow> json \<Rightarrow> json"
  and spec_items :: "(json \<Rightarrow> string) \<Rightarrow> dict \<Rightarrow> dict" where
  "spec_normalize other (JList xs) = JList (map (spec_normalize other) xs)"
| "spec_normalize other (JObj kvs) = JObj (spec_alias other (spec_items other kvs))"
| "spec_normalize other v = v"
| "spec_items other [] = []"
| "spec_items other ((k, v) # kvs) = (camel_key k, spec_normalize other v) # spec_items other kvs"


text \<open>
  Field extraction by presence, as the specification words it: the capitalized key when
  present, else the lower-case key when present, else the default.
\<close>

definition lookup_by_presence :: "dict \<Rightarrow> string \<Rightarrow> string \<Rightarrow> json \<Rightarrow> json" where
  "lookup_by_presence d cap low dflt =
     (case map_of d cap of
        Some v \<Rightarrow> v
      | None \<Rightarrow> (case map_of d low of Some u \<Rightarrow> u | None \<Rightarrow> dflt))"

text \<open>
  Field extraction by truth value: the capitalized key's value when it is truthy, else the
  lower-case key's value when that key is present, else the default.
\<close>

definition lookup_by_truth :: "dict \<Rightarrow> string \<Rightarrow> string \<Rightarrow> json \<Rightarrow> json" where
  "lookup_by_truth d cap low dflt =
     (case map_of d cap of
        Some v \<Rightarrow> (if truthy v then v else (case map_of d low of Some u \<Rightarrow> u | None \<Rightarrow> dflt))
      | None \<Rightarrow> (case map_of d low of Some u \<Rightarrow> u | None \<Rightarrow> dflt))"

text \<open>
  The envelope invariant of the specification: not both a status code of 400 or more and
  a true success flag.
\<close>

definition envelope_invariant :: "json \<Rightarrow> json \<Rightarrow> bool" where
  "envelope_invariant flag code = (\<not> (truthy flag \<and> num_ge code 400 = Some True))"

text \<open>The values a payload holds under the given keys.\<close>

definition values_under :: "dict \<Rightarrow> string list \<Rightarrow> json list" where
  "values_under d ks = List.map_filter (map_of d) ks"

definition payload_invariant :: "dict \<Rightarrow> bool" where
  "payload_invariant d =
     list_all (\<lambda>flag. list_all (\<lambda>code. envelope_invariant flag code)
                          (values_under d [''StatusCode'', ''statusCode'']))
              (values_under d [''Success'', ''success''])"

text \<open>
  A dictionary in normal form: distinct keys, each already lower-cased, each value a
  fixed point of the normalizer.
\<close>

definition normal_dict :: "(json \<Rightarrow> string) \<Rightarrow> dict \<Rightarrow> bool" where
  "normal_dict other r =
     (distinct (map fst r) \<and>
      (\<forall>(k, v) \<in> set r. camel_key k = k \<and> to_camel_case_keys other v = v))"

section \<open>Properties of the dictionary operations\<close>

lemma dict_set_keys:
  "map fst (dict_set k v r) = (if k \<in> set (map fst r) then map fst r else map fst r @ [k])"
  by (induction r) force+

lemma dict_set_distinct: "distinct (map fst r) \<Longrightarrow> distinct (map fst (dict_set k v r))"
  by (simp add: dict_set_keys)

lemma dict_set_entries: "e \<in> set (dict_set k v r) \<Longrightarrow> e = (k, v) \<or> e \<in> set r"
  by (induction r) (auto split: if_splits)

lemma dict_set_fresh: "k \<notin> set (map fst r) \<Longrightarrow> dict_set k v r = r @ [(k, v)]"
  by (induction r) auto

lemma map_of_dict_set: "map_of (dict_set k v r) k' = (if k' = k then Some v else map_of r k')"
  by (induction r) auto

lemma lower_char_idem: "lower_char (lower_char c) = lower_char c"
  by (simp add: lower_char_def)

lemma camel_key_idem: "camel_key (camel_key k) = camel_key k"
  by (cases k) (simp_all add: lower_char_idem)

section \<open>The normalizer is idempotent\<close>

lemma normal_dict_set:
  assumes "normal_dict other r" "camel_key k = k" "to_camel_case_keys other v = v"
  shows "normal_dict other (dict_set k v r)"
  using assms unfolding normal_dict_def
  by (auto simp: dict_set_distinct dest!: dict_set_entries)

lemma camel_items_normal:
  assumes "normal_dict other res"
    and "\<And>k v. (k, v) \<in> set kvs \<Longrightarrow>
           to_camel_case_keys other (to_camel_case_keys other v) = to_camel_case_keys other v"
  shows "normal_dict other (camel_items other res kvs)"
  using assms
proof (induction kvs arbitrary: res)
  case Nil
  then show ?case by simp
next
  case (Cons kv kvs)
  obtain k v where kv: "kv = (k, v)" by (cases kv)
  have "normal_dict other (dict_set (camel_key k) (to_camel_case_keys other v) res)"
  proof (rule normal_dict_set)
    show "normal_dict other res" by (rule Cons.prems(1))
    show "camel_key (camel_key k) = camel_key k" by (rule camel_key_idem)
    show "to_camel_case_keys other (to_camel_case_keys other v) = to_camel_case_keys other v"
      by (rule Cons.prems(2) [of k v]) (simp add: kv)
  qed
  then have "normal_dict other
      (camel_items other (dict_set (camel_key k) (to_camel_case_keys other v) res) kvs)"
  proof (rule Cons.IH)
    fix k' v' assume "(k', v') \<in> set kvs"
    then show "to_camel_case_keys other (to_camel_case_keys other v') = to_camel_case_keys other v'"
      by (intro Cons.prems(2) [of k' v']) simp
  qed
  then show ?case by (simp add: kv)
qed

lemma camel_items_fixed:
  assumes "normal_dict other (res @ r)"
  shows "camel_items other res r = res @ r"
  using assms
proof (induction r arbitrary: res)
  case Nil
  then show ?case by simp
next
  case (Cons kv r)
  obtain k v where kv: "kv = (k, v)" by (cases kv)
  from Cons.prems kv have fixed: "camel_key k = k" "to_camel_case_keys other v = v"
    and fresh: "k \<notin> set (map fst res)"
    by (auto simp: normal_dict_def)
  have "camel_items other res (kv # r) = camel_items other (res @ [(k, v)]) r"
    using kv fixed fresh by (simp add: dict_set_fresh)
  also have "\<dots> = (res @ [(k, v)]) @ r"
    using Cons.prems kv by (intro Cons.IH) simp
  finally show ?case using kv by simp
qed

lemma add_alias_normal:
  assumes "normal_dict other r"
  shows "normal_dict other (add_alias other r)"
  using assms unfolding add_alias_def
  by (auto split: option.splits intro!: normal_dict_set simp: lower_char_def)

lemma add_alias_idem: "add_alias other (add_alias other r) = add_alias other r"
  by (auto simp: add_alias_def map_of_dict_set split: option.splits)

lemma normal_dict_Nil: "normal_dict other []"
  by (simp add: normal_dict_def)

text \<open>
  C3. Wire normalization is idempotent: for every value built from mappings, sequences
  and scalars, applying \<^verbatim>\<open>_to_camel_case_keys\<close> twice gives the same result as
  applying it once.
\<close>

theorem normalize_idempotent:
  "to_camel_case_keys other (to_camel_case_keys other v) = to_camel_case_keys other v"
proof (induction v)
  case (JList xs)
  then show ?case by simp
next
  case (JObj kvs)
  have ih: "\<And>k v. (k, v) \<in> set kvs \<Longrightarrow>
      to_camel_case_keys other (to_camel_case_keys other v) = to_camel_case_keys other v"
    using JObj.IH by force
  define r where "r = add_alias other (camel_items other [] kvs)"
  have "normal_dict other (camel_items other [] kvs)"
    using ih by (intro camel_items_normal normal_dict_Nil)
  then have nr: "normal_dict other r"
    unfolding r_def by (rule add_alias_normal)
  then have "camel_items other [] r = r"
    using camel_items_fixed [of other "[]" r] by simp
  moreover have "add_alias other r = r"
    unfolding r_def by (rule add_alias_idem)
  ultimately show ?case
    by (simp add: r_def)
qed simp_all

section \<open>The normalizer against the specification's wording\<close>

lemma map_of_None_keys: "map_of r k = None \<longleftrightarrow> k \<notin> set (map fst r)"
  by (simp add: map_of_eq_None_iff)


lemma spec_items_keys: "map fst (spec_items other kvs) = map (\<lambda>kv. camel_key (fst kv)) kvs"
  by (induction kvs) auto





section \<open>The convenience alias\<close>

lemma camel_items_keys:
  "set (map fst (camel_items other res kvs)) =
     set (map fst res) \<union> set (map (\<lambda>kv. camel_key (fst kv)) kvs)"
proof (induction kvs arbitrary: res)
  case Nil
  then show ?case by simp
next
  case (Cons kv kvs)
  obtain k v where kv: "kv = (k, v)" by (cases kv)
  show ?case
    unfolding kv camel_items.simps Cons.IH
    by (auto simp: dict_set_keys)
qed

text \<open>
  C7. Let \<open>r\<close> be the mapping after key normalization and \<open>ks\<close> the lower-cased keys
  of the input. If \<open>documentId\<close> is among them and \<open>id\<close> is not, the result is \<open>r\<close>
  with one more entry, \<open>id\<close>, holding the string form of the \<open>documentId\<close> value. If
  \<open>id\<close> is among them, the result is \<open>r\<close>: the existing \<open>id\<close> is kept. If
  \<open>documentId\<close> is not among them, the result is \<open>r\<close> and has an \<open>id\<close> only if the
  input had one.
\<close>

theorem alias_rule:
  assumes out: "to_camel_case_keys other (JObj kvs) = JObj out"
    and r: "r = camel_items other [] kvs"
    and ks: "ks = map (\<lambda>kv. camel_key (fst kv)) kvs"
  shows "(''documentId'' \<in> set ks \<and> ''id'' \<notin> set ks \<longrightarrow>
            (\<exists>d. map_of r ''documentId'' = Some d \<and>
                 out = r @ [(''id'', JStr (py_str other d))])) \<and>
         (''id'' \<in> set ks \<longrightarrow> out = r) \<and>
         (''documentId'' \<notin> set ks \<longrightarrow> out = r \<and> (''id'' \<in> set (map fst out)) = (''id'' \<in> set ks))"
proof -
  have keys: "set (map fst r) = set ks"
    using camel_items_keys [of other "[]" kvs] unfolding r ks by simp
  have out_eq: "out = add_alias other r"
    using out r by simp
  have a: "\<exists>d. map_of r ''documentId'' = Some d \<and> out = r @ [(''id'', JStr (py_str other d))]"
    if "''documentId'' \<in> set ks" "''id'' \<notin> set ks"
  proof -
    from that keys obtain d where d: "map_of r ''documentId'' = Some d"
      using map_of_None_keys [of r "''documentId''"] by auto
    from that keys have i: "map_of r ''id'' = None"
      by (simp add: map_of_None_keys)
    from that keys have "''id'' \<notin> set (map fst r)" by simp
    then have "out = r @ [(''id'', JStr (py_str other d))]"
      using d i by (simp add: out_eq add_alias_def dict_set_fresh)
    with d show ?thesis by blast
  qed
  have b: "out = r" if "''id'' \<in> set ks"
  proof -
    from that keys obtain i where "map_of r ''id'' = Some i"
      using map_of_None_keys [of r "''id''"] by auto
    then show ?thesis
      by (simp add: out_eq add_alias_def split: option.splits)
  qed
  have c: "out = r" if "''documentId'' \<notin> set ks"
  proof -
    from that keys have "map_of r ''documentId'' = None"
      by (simp add: map_of_None_keys)
    then show ?thesis
      by (simp add: out_eq add_alias_def)
  qed
  from a b c keys show ?thesis by auto
qed

theorem alias_rule_witness:
  "to_camel_case_keys (\<lambda>v. []) (JObj [(''DocumentId'', JInt 42), (''Name'', JStr ''doc'')]) =
     JObj [(''documentId'', JInt 42), (''name'', JStr ''doc''), (''id'', JStr ''42'')] \<and>
   (\<exists>d. map_of (camel_items (\<lambda>v. []) [] [(''DocumentId'', JInt 42), (''Name'', JStr ''doc'')])
           ''documentId'' = Some d \<and>
        [(''documentId'', JInt 42), (''name'', JStr ''doc''), (''id'', JStr ''42'')] =
        camel_items (\<lambda>v. []) [] [(''DocumentId'', JInt 42), (''Name'', JStr ''doc'')] @
          [(''id'', JStr (py_str (\<lambda>v. []) d))])"
proof -
  have h: "to_camel_case_keys (\<lambda>v. []) (JObj [(''DocumentId'', JInt 42), (''Name'', JStr ''doc'')]) =
     JObj [(''documentId'', JInt 42), (''name'', JStr ''doc''), (''id'', JStr ''42'')]"
    by (simp add: lower_char_def add_alias_def str_int_def str_nat.simps digit_char_def)
  from h alias_rule [OF h refl refl] show ?thesis
    by (simp add: lower_char_def)
qed

section \<open>Envelope construction\<close>

lemma py_or_get_lookup:
  "py_or (dict_get d cap) (dict_get_default d low dflt) = lookup_by_truth d cap low dflt"
  by (simp add: py_or_def dict_get_def dict_get_default_def lookup_by_truth_def split: option.splits)

lemma dict_get_as_default: "dict_get d k = dict_get_default d k JNull"
  by (simp add: dict_get_def dict_get_default_def)

text \<open>
  C4, as amended. For every envelope field, \<^verbatim>\<open>ApiResponse.from_dict\<close> uses the value
  under the capitalized key when that value is truthy; otherwise the value under the
  lower-case key when that key is present; otherwise the default (\<^verbatim>\<open>False\<close> for
  \<open>success\<close>, \<open>0\<close> for \<open>statusCode\<close>, \<^verbatim>\<open>None\<close> for the others). \<open>data\<close> is the
  normalizer applied to the value so chosen, or \<^verbatim>\<open>None\<close> when that value is falsy.
\<close>

theorem from_dict_fields_by_truth:
  "guid (from_dict other d) = lookup_by_truth d ''Guid'' ''guid'' JNull \<and>
   success (from_dict other d) = lookup_by_truth d ''Success'' ''success'' (JBool False) \<and>
   timestamp_utc (from_dict other d) = lookup_by_truth d ''TimestampUtc'' ''timestampUtc'' JNull \<and>
   status_code (from_dict other d) = lookup_by_truth d ''StatusCode'' ''statusCode'' (JInt 0) \<and>
   error_message (from_dict other d) = lookup_by_truth d ''ErrorMessage'' ''errorMessage'' JNull \<and>
   total_count (from_dict other d) = lookup_by_truth d ''TotalCount'' ''totalCount'' JNull \<and>
   processing_time_ms (from_dict other d) =
     lookup_by_truth d ''ProcessingTimeMs'' ''processingTimeMs'' JNull \<and>
   data (from_dict other d) =
     (if truthy (lookup_by_truth d ''Data'' ''data'' JNull)
      then to_camel_case_keys other (lookup_by_truth d ''Data'' ''data'' JNull)
      else JNull)"
  by (simp add: from_dict_def Let_def py_or_get_lookup
      py_or_get_lookup [of d _ _ JNull, folded dict_get_as_default])

text \<open>
  Extraction by presence fails on \<^verbatim>\<open>{"TotalCount": 0}\<close>: the capitalized key is
  present with the value 0, and the envelope's \<open>total_count\<close> is \<^verbatim>\<open>None\<close>.
\<close>

theorem from_dict_not_by_presence:
  "map_of [(''TotalCount'', JInt 0)] ''TotalCount'' = Some (JInt 0) \<and>
   total_count (from_dict (\<lambda>v. []) [(''TotalCount'', JInt 0)]) = JNull \<and>
   total_count (from_dict (\<lambda>v. []) [(''TotalCount'', JInt 0)]) \<noteq>
     lookup_by_presence [(''TotalCount'', JInt 0)] ''TotalCount'' ''totalCount'' JNull"
  by (simp add: from_dict_def py_or_def dict_get_def dict_get_default_def lookup_by_presence_def)

lemma truthy_normalize_not_None: "truthy v \<Longrightarrow> to_camel_case_keys other v \<noteq> JNull"
  by (cases v) auto

text \<open>
  C5, as amended. \<open>data\<close> is the normalizer applied to the \<open>Data\<close> value when that value
  is truthy, else to the \<open>data\<close> value when that one is truthy; \<open>data\<close> is \<^verbatim>\<open>None\<close>
  exactly when neither key holds a truthy value (the key is absent, or its value is
  \<^verbatim>\<open>None\<close>, \<^verbatim>\<open>False\<close>, zero, or an empty string, list or mapping).
\<close>

theorem from_dict_data:
  "(truthy (dict_get d ''Data'') \<longrightarrow>
      data (from_dict other d) = to_camel_case_keys other (dict_get d ''Data'')) \<and>
   (\<not> truthy (dict_get d ''Data'') \<and> truthy (dict_get d ''data'') \<longrightarrow>
      data (from_dict other d) = to_camel_case_keys other (dict_get d ''data'')) \<and>
   (data (from_dict other d) = JNull \<longleftrightarrow>
      \<not> truthy (dict_get d ''Data'') \<and> \<not> truthy (dict_get d ''data''))"
  by (auto simp: from_dict_def Let_def py_or_def truthy_normalize_not_None)

theorem from_dict_data_witness:
  "truthy (dict_get [(''Data'', JObj [(''DocumentId'', JStr ''d1'')])] ''Data'') \<and>
   data (from_dict (\<lambda>v. []) [(''Data'', JObj [(''DocumentId'', JStr ''d1'')])]) =
     JObj [(''documentId'', JStr ''d1''), (''id'', JStr ''d1'')] \<and>
   \<not> truthy (dict_get [(''Data'', JNull), (''data'', JList [JInt 1])] ''Data'') \<and>
   truthy (dict_get [(''Data'', JNull), (''data'', JList [JInt 1])] ''data'') \<and>
   data (from_dict (\<lambda>v. []) [(''Data'', JNull), (''data'', JList [JInt 1])]) = JList [JInt 1] \<and>
   data (from_dict (\<lambda>v. []) [(''Success'', JBool True)]) = JNull"
  using from_dict_data [of "[(''Data'', JObj [(''DocumentId'', JStr ''d1'')])]" "\<lambda>v. []"]
    from_dict_data [of "[(''Data'', JNull), (''data'', JList [JInt 1])]" "\<lambda>v. []"]
    from_dict_data [of "[(''Success'', JBool True)]" "\<lambda>v. []"]
  by (simp add: dict_get_def lower_char_def add_alias_def)

text \<open>
  The claim as stated fails on \<^verbatim>\<open>{"Data": []}\<close>: the payload holds a value under
  \<open>Data\<close>, the normalizer maps it to the empty list, and the envelope's \<open>data\<close> is
  \<^verbatim>\<open>None\<close>.
\<close>

theorem from_dict_drops_empty_data:
  "map_of [(''Data'', JList [])] ''Data'' = Some (JList []) \<and>
   data (from_dict (\<lambda>v. []) [(''Data'', JList [])]) = JNull \<and>
   data (from_dict (\<lambda>v. []) [(''Data'', JList [])]) \<noteq> to_camel_case_keys (\<lambda>v. []) (JList [])"
  by (simp add: from_dict_def py_or_def dict_get_def)

lemma lookup_by_truth_cases:
  "lookup_by_truth d cap low dflt = dflt \<or>
   lookup_by_truth d cap low dflt \<in> set (values_under d [cap, low])"
  by (auto simp: lookup_by_truth_def values_under_def List.map_filter_def split: option.splits)

lemma success_from_dict_cases:
  "success (from_dict other d) = JBool False \<or>
   success (from_dict other d) \<in> set (values_under d [''Success'', ''success''])"
  using lookup_by_truth_cases [of d "''Success''" "''success''" "JBool False"]
  by (simp add: from_dict_def Let_def py_or_get_lookup)

lemma status_code_from_dict_cases:
  "status_code (from_dict other d) = JInt 0 \<or>
   status_code (from_dict other d) \<in> set (values_under d [''StatusCode'', ''statusCode''])"
  using lookup_by_truth_cases [of d "''StatusCode''" "''statusCode''" "JInt 0"]
  by (simp add: from_dict_def Let_def py_or_get_lookup)

text \<open>
  C1, as amended. \<^verbatim>\<open>ApiResponse.from_dict\<close> checks nothing: it takes the success flag
  and the status code from the payload. When no status code of 400 or more stands next to a
  true success flag in the payload (under either casing of the keys), the envelope has
  \<open>success\<close> false whenever \<open>statusCode >= 400\<close>, and \<open>statusCode < 400\<close> whenever
  \<open>success\<close> is true.
\<close>

theorem from_dict_preserves_invariant:
  assumes "payload_invariant d"
  shows "envelope_invariant (success (from_dict other d)) (status_code (from_dict other d))"
proof -
  have all: "\<And>flag code. flag \<in> set (values_under d [''Success'', ''success'']) \<Longrightarrow>
      code \<in> set (values_under d [''StatusCode'', ''statusCode'']) \<Longrightarrow> envelope_invariant flag code"
    using assms by (simp add: payload_invariant_def list_all_iff)
  consider (f) "success (from_dict other d) = JBool False"
    | (c) "status_code (from_dict other d) = JInt 0"
    | (both) "success (from_dict other d) \<in> set (values_under d [''Success'', ''success''])"
        "status_code (from_dict other d) \<in> set (values_under d [''StatusCode'', ''statusCode''])"
    using success_from_dict_cases [of other d] status_code_from_dict_cases [of other d] by blast
  then show ?thesis
  proof cases
    case f
    then show ?thesis by (simp add: envelope_invariant_def)
  next
    case c
    then show ?thesis by (simp add: envelope_invariant_def)
  next
    case both
    then show ?thesis by (rule all)
  qed
qed

theorem from_dict_preserves_invariant_witness:
  "payload_invariant [(''Success'', JBool False), (''StatusCode'', JInt 404)] \<and>
   envelope_invariant
     (success (from_dict (\<lambda>v. []) [(''Success'', JBool False), (''StatusCode'', JInt 404)]))
     (status_code (from_dict (\<lambda>v. []) [(''Success'', JBool False), (''StatusCode'', JInt 404)])) \<and>
   success (from_dict (\<lambda>v. []) [(''Success'', JBool False), (''StatusCode'', JInt 404)]) = JBool False \<and>
   status_code (from_dict (\<lambda>v. []) [(''Success'', JBool False), (''StatusCode'', JInt 404)]) = JInt 404"
proof -
  have h: "payload_invariant [(''Success'', JBool False), (''StatusCode'', JInt 404)]"
    by (simp add: payload_invariant_def values_under_def List.map_filter_def envelope_invariant_def)
  from h from_dict_preserves_invariant [OF h, of "\<lambda>v. []"] show ?thesis
    by (simp add: from_dict_def py_or_def dict_get_def dict_get_default_def)
qed

text \<open>
  The claim as stated fails on \<^verbatim>\<open>{"Success": true, "StatusCode": 500}\<close>: the envelope
  has a true success flag and status code 500.
\<close>

theorem from_dict_copies_violation:
  "success (from_dict (\<lambda>v. []) [(''Success'', JBool True), (''StatusCode'', JInt 500)]) = JBool True \<and>
   status_code (from_dict (\<lambda>v. []) [(''Success'', JBool True), (''StatusCode'', JInt 500)]) = JInt 500 \<and>
   \<not> envelope_invariant
     (success (from_dict (\<lambda>v. []) [(''Success'', JBool True), (''StatusCode'', JInt 500)]))
     (status_code (from_dict (\<lambda>v. []) [(''Success'', JBool True), (''StatusCode'', JInt 500)]))"
  by (simp add: from_dict_def py_or_def dict_get_def dict_get_default_def envelope_invariant_def)

section \<open>Requests, raised errors and returned envelopes\<close>

lemma perform_after_send: "perform other tr c call = after_send other (tr (request_of c call))"
  by (cases call) (simp_all add: perform_def make_request_def request_of_def Let_def)

text \<open>
  C2, as amended. For every operation whose request the transport answers with a payload
  that decodes to a mapping (or with a body that is not JSON, through the fallback
  payload), and whose envelope has a truthy success flag or a numeric status code: the
  operation raises \<^verbatim>\<open>VerbexError\<close>, carrying the status code and the envelope, exactly
  when the success flag is falsy and the status code is 400 or more; in every other case it
  returns the envelope. So a returned envelope has a truthy success flag or a status code
  below 400; an envelope with a false success flag and a status code below 400 is returned.
\<close>

theorem perform_raises_iff:
  assumes sent: "tr (request_of c call) = Inr response"
    and payload: "response_data_of response = JObj d"
    and env: "env = from_dict other d"
    and numeric: "truthy (success env) \<or> num_ge (status_code env) 400 \<noteq> None"
  shows "perform other tr c call =
           (if \<not> truthy (success env) \<and> num_ge (status_code env) 400 = Some True
            then Inl (VerbexError
                        (py_or (error_message env)
                           (JStr (''Request failed with status '' @ py_str other (status_code env))))
                        (status_code env) (Some env))
            else Inr env)"
proof -
  have "perform other tr c call = check_response other (JObj d)"
    using sent payload by (simp add: perform_after_send after_send_def)
  also have "\<dots> = (if \<not> truthy (success env) \<and> num_ge (status_code env) 400 = Some True
            then Inl (VerbexError
                        (py_or (error_message env)
                           (JStr (''Request failed with status '' @ py_str other (status_code env))))
                        (status_code env) (Some env))
            else Inr env)"
    using numeric unfolding env
    by (auto simp: check_response_def Let_def split: option.splits bool.splits)
  finally show ?thesis .
qed

theorem perform_raises_iff_witness:
  "perform (\<lambda>v. [])
     (\<lambda>req. Inr \<lparr> resp_json = Some (JObj [(''Success'', JBool False), (''StatusCode'', JInt 404)]),
                   resp_ok = False, resp_status_code = 404, resp_text = [] \<rparr>)
     \<lparr> endpoint = ''http://localhost:8080'', access_key = ''key'' \<rparr> (Get_index ''missing'') =
   Inl (VerbexError (JStr ''Request failed with status 404'') (JInt 404)
          (Some (from_dict (\<lambda>v. []) [(''Success'', JBool False), (''StatusCode'', JInt 404)]))) \<and>
   perform (\<lambda>v. [])
     (\<lambda>req. Inr \<lparr> resp_json = None, resp_ok = True, resp_status_code = 200, resp_text = ''OK'' \<rparr>)
     \<lparr> endpoint = ''http://localhost:8080'', access_key = ''key'' \<rparr> Root_health_check =
   Inr (from_dict (\<lambda>v. [])
          [(''success'', JBool True), (''statusCode'', JInt 200), (''data'', JStr ''OK'')])"
proof -
  let ?c = "\<lparr> endpoint = ''http://localhost:8080'', access_key = ''key'' \<rparr>"
  let ?r1 = "\<lparr> resp_json = Some (JObj [(''Success'', JBool False), (''StatusCode'', JInt 404)]),
                resp_ok = False, resp_status_code = 404, resp_text = [] \<rparr>"
  let ?r2 = "\<lparr> resp_json = None, resp_ok = True, resp_status_code = 200, resp_text = ''OK'' \<rparr>"
  have p1: "response_data_of ?r1 = JObj [(''Success'', JBool False), (''StatusCode'', JInt 404)]"
    by (simp add: response_data_of_def)
  have p2: "response_data_of ?r2 =
      JObj [(''success'', JBool True), (''statusCode'', JInt 200), (''data'', JStr ''OK'')]"
    by (simp add: response_data_of_def fallback_payload_def)
  have n1: "truthy (success (from_dict (\<lambda>v. []) [(''Success'', JBool False), (''StatusCode'', JInt 404)])) \<or>
      num_ge (status_code (from_dict (\<lambda>v. []) [(''Success'', JBool False), (''StatusCode'', JInt 404)])) 400 \<noteq> None"
    by (simp add: from_dict_def Let_def py_or_def dict_get_def dict_get_default_def)
  have n2: "truthy (success (from_dict (\<lambda>v. [])
        [(''success'', JBool True), (''statusCode'', JInt 200), (''data'', JStr ''OK'')])) \<or>
      num_ge (status_code (from_dict (\<lambda>v. [])
        [(''success'', JBool True), (''statusCode'', JInt 200), (''data'', JStr ''OK'')])) 400 \<noteq> None"
    by (simp add: from_dict_def Let_def py_or_def dict_get_def dict_get_default_def)
  show ?thesis
    using perform_raises_iff [of "\<lambda>req. Inr ?r1" ?c "Get_index ''missing''" ?r1 _ _ "\<lambda>v. []", OF refl p1 refl n1]
      perform_raises_iff [of "\<lambda>req. Inr ?r2" ?c Root_health_check ?r2 _ _ "\<lambda>v. []", OF refl p2 refl n2]
    by (simp add: from_dict_def Let_def py_or_def dict_get_def dict_get_default_def
        str_int_def str_nat.simps digit_char_def)
qed

text \<open>
  The claim as stated fails on \<^verbatim>\<open>{"Success": false, "StatusCode": 200}\<close>: the operation
  returns an envelope whose success flag is false.
\<close>

theorem perform_returns_unsuccessful_envelope:
  "perform (\<lambda>v. [])
     (\<lambda>req. Inr \<lparr> resp_json = Some (JObj [(''Success'', JBool False), (''StatusCode'', JInt 200)]),
                   resp_ok = True, resp_status_code = 200, resp_text = [] \<rparr>)
     \<lparr> endpoint = ''http://localhost:8080'', access_key = ''key'' \<rparr> Health_check =
   Inr \<lparr> guid = JNull, success = JBool False, timestamp_utc = JNull, status_code = JInt 200,
         error_message = JNull, data = JNull, total_count = JNull, processing_time_ms = JNull,
         raw_response = [(''Success'', JBool False), (''StatusCode'', JInt 200)] \<rparr>"
  by (simp add: perform_def make_request_def after_send_def response_data_of_def
      check_response_def from_dict_def py_or_def dict_get_def dict_get_default_def)



section \<open>Optional request parameters\<close>


lemma set_if_truthy_absent [simp]:
  "set_if_truthy k JNull d = d" "set_if_truthy k (JStr []) d = d"
  "set_if_truthy k (JList []) d = d" "set_if_truthy k (JObj []) d = d"
  by (simp_all add: set_if_truthy_def)




section \<open>The harness command line\<close>






end
